theory Spec2Isabelle
  imports Main "HOL-Library.AList"
begin

section \<open>Data model\<close>

text \<open>
  A Go \<^verbatim>\<open>error\<close> is either an error raised by a collaborator (database driver,
  schema gate, settings store) or the result of \<^verbatim>\<open>fmt.Errorf("<prefix>: %w", err)\<close>,
  which keeps the wrapped error and puts the formatted prefix in front of it.
\<close>

datatype error = Err string | Wrap string error

text \<open>The columns of the three tables that the migrations read or write.\<close>

record block =
  ID :: string
  Type :: string
  WorkspaceID :: string

record category =
  cat_id :: string
  cat_name :: string

record category_block =
  cb_id :: string
  cb_category_id :: string
  cb_block_id :: string

record tables =
  blocks :: "block list"
  categories :: "category list"
  category_blocks :: "category_block list"
  system_settings :: "(string \<times> string) list"

text \<open>
  Every call that leaves the migration code (schema gate, settings store, transaction
  handle, SQL statement, row cursor) is recorded in a trace, in the order it is made.
\<close>

datatype call =
    CEnsureMigrations nat
  | CGetSystemSetting string
  | CBeginTx
  | CGetBlocksWithSameID
  | CReplaceBlockID string string string
  | CSetSystemSetting string string
  | CSelectIDs string
  | CScan
  | CUpdate string string string string
  | CRowsClose
  | CRollback
  | CCommit

datatype log_entry =
    LogDebug string
  | LogError string error "(string \<times> string) list"

text \<open>
  The store: \<open>db\<close> is the committed content of the database, \<open>tx\<close> the working copy of the
  open transaction (\<open>None\<close> when no transaction is open), \<open>generated\<close> counts the
  identifiers handed out so far.
\<close>

record world =
  db :: tables
  tx :: "tables option"
  schema_version :: nat
  trace :: "call list"
  logs :: "log_entry list"
  generated :: nat

text \<open>
  What the code does not decide is a parameter: \<open>fault n\<close> is the error (if any) returned
  by the \<open>n\<close>-th external call of the trace, \<open>id_source n k\<close> the \<open>n\<close>-th identifier produced
  by \<^verbatim>\<open>utils.NewID\<close> when asked for kind \<open>k\<close>, \<open>rank\<close> fixes the order in which a
  \<^verbatim>\<open>range\<close> over a Go map visits its keys (Go leaves it unspecified), and
  \<open>BlockType2IDType\<close>, \<open>IDTypeNone\<close> and \<open>uniqueIDsMigrationRequiredVersion\<close> are declared
  outside this file.
\<close>

record env =
  fault :: "nat \<Rightarrow> error option"
  id_source :: "nat \<Rightarrow> string \<Rightarrow> string"
  BlockType2IDType :: "string \<Rightarrow> string"
  IDTypeNone :: string
  uniqueIDsMigrationRequiredVersion :: nat
  rank :: "nat \<Rightarrow> string \<Rightarrow> nat"

definition UniqueIDsMigrationKey :: string where
  "UniqueIDsMigrationKey = ''UniqueIDsMigrationComplete''"

definition CategoryUUIDIDMigrationKey :: string where
  "CategoryUUIDIDMigrationKey = ''CategoryUuidIdMigrationComplete''"

definition categoriesUUIDIDMigrationRequiredVersion :: nat where
  "categoriesUUIDIDMigrationRequiredVersion = 16"

section \<open>Collaborators\<close>

definition ext_call :: "env \<Rightarrow> call \<Rightarrow> world \<Rightarrow> error option \<times> world" where
  "ext_call E c w = (fault E (length (trace w)), w\<lparr>trace := trace w @ [c]\<rparr>)"

text \<open>
  A \<^verbatim>\<open>sq.BaseRunner\<close> is the open transaction when there is one and the database itself
  otherwise.
\<close>

definition current :: "world \<Rightarrow> tables" where
  "current w = (case tx w of Some t \<Rightarrow> t | None \<Rightarrow> db w)"

definition put :: "tables \<Rightarrow> world \<Rightarrow> world" where
  "put t w = (case tx w of Some _ \<Rightarrow> w\<lparr>tx := Some t\<rparr> | None \<Rightarrow> w\<lparr>db := t\<rparr>)"

definition logDebug :: "string \<Rightarrow> world \<Rightarrow> world" where
  "logDebug msg w = w\<lparr>logs := logs w @ [LogDebug msg]\<rparr>"

definition logError :: "string \<Rightarrow> error \<Rightarrow> (string \<times> string) list \<Rightarrow> world \<Rightarrow> world" where
  "logError msg err kvs w = w\<lparr>logs := logs w @ [LogError msg err kvs]\<rparr>"

definition NewID :: "env \<Rightarrow> string \<Rightarrow> world \<Rightarrow> string \<times> world" where
  "NewID E idType w = (id_source E (generated w) idType, w\<lparr>generated := Suc (generated w)\<rparr>)"

text \<open>\<^verbatim>\<open>strconv.ParseBool\<close> and \<^verbatim>\<open>strconv.FormatBool\<close> of the Go standard library.\<close>

definition ParseBool :: "string \<Rightarrow> bool \<times> error option" where
  "ParseBool str =
     (if str \<in> set [''1'', ''t'', ''T'', ''TRUE'', ''true'', ''True''] then (True, None)
      else if str \<in> set [''0'', ''f'', ''F'', ''FALSE'', ''false'', ''False''] then (False, None)
      else (False, Some (Err (''strconv.ParseBool: parsing '' @ str @ '': invalid syntax''))))"

definition FormatBool :: "bool \<Rightarrow> string" where
  "FormatBool b = (if b then ''true'' else ''false'')"

text \<open>The transaction handle of \<^verbatim>\<open>database/sql\<close>.\<close>

definition BeginTx :: "env \<Rightarrow> world \<Rightarrow> error option \<times> world" where
  "BeginTx E w =
     (case ext_call E CBeginTx w of
        (Some txErr, w') \<Rightarrow> (Some txErr, w')
      | (None, w') \<Rightarrow> (None, w'\<lparr>tx := Some (db w')\<rparr>))"

definition Rollback :: "env \<Rightarrow> world \<Rightarrow> error option \<times> world" where
  "Rollback E w =
     (case ext_call E CRollback w of
        (Some rollbackErr, w') \<Rightarrow> (Some rollbackErr, w')
      | (None, w') \<Rightarrow> (None, w'\<lparr>tx := None\<rparr>))"

definition Commit :: "env \<Rightarrow> world \<Rightarrow> error option \<times> world" where
  "Commit E w =
     (case ext_call E CCommit w of
        (Some err, w') \<Rightarrow> (Some err, w')
      | (None, w') \<Rightarrow> (None, w'\<lparr>db := current w', tx := None\<rparr>))"

text \<open>
  Modelled from the spec: \<^verbatim>\<open>ensureMigrationsAppliedUpToVersion\<close> is not in this file.
  The schema version gate consults the schema-version source and fails, without side
  effects, if the live schema version is lower than the required one.
\<close>

definition ensureMigrationsAppliedUpToVersion :: "env \<Rightarrow> nat \<Rightarrow> world \<Rightarrow> error option \<times> world" where
  "ensureMigrationsAppliedUpToVersion E version w =
     (case ext_call E (CEnsureMigrations version) w of
        (Some err, w') \<Rightarrow> (Some err, w')
      | (None, w') \<Rightarrow>
          if schema_version w' < version then (Some (Err ''schema not ready''), w')
          else (None, w'))"

text \<open>
  Modelled from the spec: \<^verbatim>\<open>GetSystemSetting\<close> is not in this file. The system setting
  store returns the stored string, an absent key is not an error; it is read on the
  database, outside any transaction.
\<close>

definition GetSystemSetting :: "env \<Rightarrow> string \<Rightarrow> world \<Rightarrow> (error + string) \<times> world" where
  "GetSystemSetting E key w =
     (case ext_call E (CGetSystemSetting key) w of
        (Some err, w') \<Rightarrow> (Inl err, w')
      | (None, w') \<Rightarrow>
          (Inr (case map_of (system_settings (db w')) key of None \<Rightarrow> [] | Some v \<Rightarrow> v), w'))"

text \<open>
  Modelled from the spec: \<^verbatim>\<open>setSystemSetting\<close> is not in this file. It stores the value
  under the key through the runner it is given (here the transaction).
\<close>

definition setSystemSetting :: "env \<Rightarrow> string \<Rightarrow> string \<Rightarrow> world \<Rightarrow> error option \<times> world" where
  "setSystemSetting E key val w =
     (case ext_call E (CSetSystemSetting key val) w of
        (Some err, w') \<Rightarrow> (Some err, w')
      | (None, w') \<Rightarrow>
          (None, put ((current w')\<lparr>system_settings :=
                         AList.update key val (system_settings (current w'))\<rparr>) w'))"

text \<open>
  Modelled from the spec: \<^verbatim>\<open>getBlocksWithSameID\<close> is not in this file. The duplicate
  scanner lists all rows of the owner table and retains, in listing order, the rows of
  the groups (by identifier) whose size exceeds one.
\<close>

definition getBlocksWithSameID :: "env \<Rightarrow> world \<Rightarrow> (error + block list) \<times> world" where
  "getBlocksWithSameID E w =
     (case ext_call E CGetBlocksWithSameID w of
        (Some err, w') \<Rightarrow> (Inl err, w')
      | (None, w') \<Rightarrow>
          (Inr (filter (\<lambda>b. 1 < length (filter (\<lambda>b'. ID b' = ID b) (blocks (current w'))))
                  (blocks (current w'))), w'))"

text \<open>
  Modelled from the spec: \<^verbatim>\<open>replaceBlockID\<close> is not in this file. For a pair (old, new)
  the remapper updates the identifier column of the owner table where it equals old;
  blocks have no listed dependent table. The spec gives the workspace argument no role.
\<close>

definition replaceBlockID :: "env \<Rightarrow> string \<Rightarrow> string \<Rightarrow> string \<Rightarrow> world \<Rightarrow> error option \<times> world" where
  "replaceBlockID E currentID newID workspaceID w =
     (case ext_call E (CReplaceBlockID currentID newID workspaceID) w of
        (Some err, w') \<Rightarrow> (Some err, w')
      | (None, w') \<Rightarrow>
          (None, put ((current w')\<lparr>blocks :=
                         map (\<lambda>b. if ID b = currentID then b\<lparr>ID := newID\<rparr> else b)
                           (blocks (current w'))\<rparr>) w'))"

text \<open>
  A Go map with string keys is an association list with distinct keys; \<open>range_order\<close> is
  the order in which a \<^verbatim>\<open>range\<close> statement visits the keys, some permutation of them.
\<close>

definition lookup_default :: "(string \<times> 'v) list \<Rightarrow> string \<Rightarrow> 'v \<Rightarrow> 'v" where
  "lookup_default m k d = (case map_of m k of None \<Rightarrow> d | Some v \<Rightarrow> v)"

definition range_order :: "env \<Rightarrow> world \<Rightarrow> (string \<times> 'v) list \<Rightarrow> string list" where
  "range_order E w m = sort_key (rank E (length (trace w))) (map fst m)"

section \<open>The unique-IDs migration\<close>

text \<open>
  The rollback on a failed step, as written out four times in the source: the error of
  the rollback itself is logged with the name of the failed step and dropped.
\<close>

definition rollbackLogged :: "env \<Rightarrow> string \<Rightarrow> string \<Rightarrow> world \<Rightarrow> world" where
  "rollbackLogged E msg methodName w =
     (case Rollback E w of
        (Some rollbackErr, w') \<Rightarrow> logError msg rollbackErr [(''methodName'', methodName)] w'
      | (None, w') \<Rightarrow> w')"

text \<open>Lines 52 to 55: group the blocks by identifier, each group in listing order.\<close>

fun blocksByID :: "block list \<Rightarrow> (string \<times> block list) list \<Rightarrow> (string \<times> block list) list" where
  "blocksByID [] m = m"
| "blocksByID (block' # rest) m =
     blocksByID rest (AList.update (ID block') (lookup_default m (ID block') [] @ [block']) m)"

text \<open>Lines 58 to 71: the inner loop over one group, \<open>i\<close> is the loop index.\<close>

fun replaceGroup :: "env \<Rightarrow> nat \<Rightarrow> block list \<Rightarrow> world \<Rightarrow> error option \<times> world" where
  "replaceGroup E i [] w = (None, w)"
| "replaceGroup E i (block' # rest) w =
     (if i = 0 then replaceGroup E (Suc i) rest w
      else
        (case NewID E (BlockType2IDType E (Type block')) w of
           (newID, w1) \<Rightarrow>
             (case replaceBlockID E (ID block') newID (WorkspaceID block') w1 of
                (Some err, w2) \<Rightarrow>
                  (Some (Wrap (''cannot replace blockID '' @ ID block') err),
                   rollbackLogged E ''unique IDs transaction rollback error'' ''replaceBlockID'' w2)
              | (None, w2) \<Rightarrow> replaceGroup E (Suc i) rest w2)))"

text \<open>Lines 57 to 72: the outer loop over the groups, in the order of the \<^verbatim>\<open>range\<close>.\<close>

fun replaceGroups :: "env \<Rightarrow> (string \<times> block list) list \<Rightarrow> string list \<Rightarrow> world \<Rightarrow> error option \<times> world" where
  "replaceGroups E m [] w = (None, w)"
| "replaceGroups E m (k # ks) w =
     (case replaceGroup E 0 (lookup_default m k []) w of
        (Some err, w') \<Rightarrow> (Some err, w')
      | (None, w') \<Rightarrow> replaceGroups E m ks w')"

text \<open>Lines 74 to 86: mark the migration as completed and commit.\<close>

definition uniqueIDsFinish :: "env \<Rightarrow> world \<Rightarrow> error option \<times> world" where
  "uniqueIDsFinish E w =
     (case setSystemSetting E UniqueIDsMigrationKey (FormatBool True) w of
        (Some err, w1) \<Rightarrow>
          (Some (Wrap ''cannot mark migration as completed'' err),
           rollbackLogged E ''unique IDs transaction rollback error'' ''setSystemSetting'' w1)
      | (None, w1) \<Rightarrow>
          (case Commit E w1 of
             (Some err, w2) \<Rightarrow> (Some (Wrap ''cannot commit unique IDs transaction'' err), w2)
           | (None, w2) \<Rightarrow> (None, logDebug ''Unique IDs migration finished successfully'' w2)))"

text \<open>Lines 37 to 86: what runs once the completion flag has been read as not set.\<close>

definition uniqueIDsTx :: "env \<Rightarrow> world \<Rightarrow> error option \<times> world" where
  "uniqueIDsTx E w =
     (case BeginTx E (logDebug ''Running Unique IDs migration'' w) of
        (Some txErr, w1) \<Rightarrow> (Some txErr, w1)
      | (None, w1) \<Rightarrow>
          (case getBlocksWithSameID E w1 of
             (Inl err, w2) \<Rightarrow>
               (Some (Wrap ''cannot get blocks with same ID'' err),
                rollbackLogged E ''unique IDs transaction rollback error'' ''getBlocksWithSameID'' w2)
           | (Inr blocks', w2) \<Rightarrow>
               (case replaceGroups E (blocksByID blocks' [])
                       (range_order E w2 (blocksByID blocks' [])) w2 of
                  (Some err, w3) \<Rightarrow> (Some err, w3)
                | (None, w3) \<Rightarrow> uniqueIDsFinish E w3)))"

definition runUniqueIDsMigration :: "env \<Rightarrow> world \<Rightarrow> error option \<times> world" where
  "runUniqueIDsMigration E w =
     (case ensureMigrationsAppliedUpToVersion E (uniqueIDsMigrationRequiredVersion E) w of
        (Some err, w1) \<Rightarrow> (Some err, w1)
      | (None, w1) \<Rightarrow>
          (case GetSystemSetting E UniqueIDsMigrationKey w1 of
             (Inl err, w2) \<Rightarrow> (Some (Wrap ''cannot get migration state'' err), w2)
           | (Inr setting, w2) \<Rightarrow>
               if fst (ParseBool setting) then (None, w2) else uniqueIDsTx E w2))"

section \<open>The category migration\<close>

text \<open>
  The identifier column of a table, by table name; a name that is no table makes the
  statement fail.
\<close>

definition table_ids :: "tables \<Rightarrow> string \<Rightarrow> string list option" where
  "table_ids t table =
     (if table = ''categories'' then Some (map cat_id (categories t))
      else if table = ''category_blocks'' then Some (map cb_id (category_blocks t))
      else if table = ''blocks'' then Some (map ID (blocks t))
      else None)"

text \<open>
  Lines 173 to 182: the cursor loop of \<open>getIDs\<close>, one \<^verbatim>\<open>Scan\<close> per row. The deferred
  \<^verbatim>\<open>CloseRows\<close> (declared outside this file) returns nothing to \<open>getIDs\<close> and is left
  out.
\<close>

fun scanIDs :: "env \<Rightarrow> string \<Rightarrow> string list \<Rightarrow> string list \<Rightarrow> world \<Rightarrow> (error + string list) \<times> world" where
  "scanIDs E table [] categoryIDs w = (Inr categoryIDs, w)"
| "scanIDs E table (id' # rows) categoryIDs w =
     (case ext_call E CScan w of
        (Some err, w') \<Rightarrow>
          (Inl err, logError ''getIDs scan row error'' err [(''table'', table)] w')
      | (None, w') \<Rightarrow> scanIDs E table rows (categoryIDs @ [id']) w')"

definition getIDs :: "env \<Rightarrow> string \<Rightarrow> world \<Rightarrow> (error + string list) \<times> world" where
  "getIDs E table w =
     (case ext_call E (CSelectIDs table) w of
        (Some err, w') \<Rightarrow> (Inl err, logError ''getIDs error'' err [(''table'', table)] w')
      | (None, w') \<Rightarrow>
          (case table_ids (current w') table of
             None \<Rightarrow>
               (Inl (Err ''no such table''),
                logError ''getIDs error'' (Err ''no such table'') [(''table'', table)] w')
           | Some rows \<Rightarrow> scanIDs E table rows [] w'))"

text \<open>
  Lines 142 to 146 and 234 to 238: one new identifier per listed row, stored under the
  old identifier, a later entry for the same key replacing the earlier one.
\<close>

fun newIDMap :: "env \<Rightarrow> string list \<Rightarrow> (string \<times> string) list \<Rightarrow> world \<Rightarrow> (string \<times> string) list \<times> world" where
  "newIDMap E [] categoryIDs w = (categoryIDs, w)"
| "newIDMap E (oldId # rest) categoryIDs w =
     (case NewID E (IDTypeNone E) w of
        (newID, w') \<Rightarrow> newIDMap E rest (AList.update oldId newID categoryIDs) w')"

definition updateCategoryID :: "env \<Rightarrow> string \<Rightarrow> string \<Rightarrow> world \<Rightarrow> error option \<times> world" where
  "updateCategoryID E oldID newID w =
     (case ext_call E (CUpdate ''categories'' ''id'' oldID newID) w of
        (Some err, w1) \<Rightarrow> (Some err, logError ''updateCategoryID update category error'' err [] w1)
      | (None, w1) \<Rightarrow>
     (case ext_call E CRowsClose
             (put ((current w1)\<lparr>categories :=
                      map (\<lambda>c. if cat_id c = oldID then c\<lparr>cat_id := newID\<rparr> else c)
                        (categories (current w1))\<rparr>) w1) of
        (Some err, w2) \<Rightarrow>
          (Some err,
           logError ''updateCategoryID error closing rows after updating categories table IDs''
             err [] w2)
      | (None, w2) \<Rightarrow>
     (case ext_call E (CUpdate ''category_blocks'' ''category_id'' oldID newID) w2 of
        (Some err, w3) \<Rightarrow>
          (Some err, logError ''updateCategoryID update category boards error'' err [] w3)
      | (None, w3) \<Rightarrow>
     (case ext_call E CRowsClose
             (put ((current w3)\<lparr>category_blocks :=
                      map (\<lambda>r. if cb_category_id r = oldID then r\<lparr>cb_category_id := newID\<rparr> else r)
                        (category_blocks (current w3))\<rparr>) w3) of
        (Some err, w4) \<Rightarrow>
          (Some err,
           logError
             ''updateCategoryID error closing rows after updating category boards table IDs''
             err [] w4)
      | (None, w4) \<Rightarrow> (None, w4)))))"

text \<open>Lines 151 to 155: one call of \<open>updateCategoryID\<close> per key of the map.\<close>

fun updateCategoryIDsLoop :: "env \<Rightarrow> (string \<times> string) list \<Rightarrow> string list \<Rightarrow> world \<Rightarrow> error option \<times> world" where
  "updateCategoryIDsLoop E categoryIDs [] w = (None, w)"
| "updateCategoryIDsLoop E categoryIDs (oldID # ks) w =
     (case updateCategoryID E oldID (lookup_default categoryIDs oldID []) w of
        (Some err, w') \<Rightarrow> (Some err, w')
      | (None, w') \<Rightarrow> updateCategoryIDsLoop E categoryIDs ks w')"

definition updateCategoryIDs :: "env \<Rightarrow> world \<Rightarrow> error option \<times> world" where
  "updateCategoryIDs E w =
     (case getIDs E ''categories'' w of
        (Inl err, w1) \<Rightarrow> (Some err, w1)
      | (Inr oldCategoryIDs, w1) \<Rightarrow>
          (case newIDMap E oldCategoryIDs [] w1 of
             (categoryIDs, w2) \<Rightarrow>
               updateCategoryIDsLoop E categoryIDs (range_order E w2 categoryIDs) w2))"

definition updateCategoryBlocksID :: "env \<Rightarrow> string \<Rightarrow> string \<Rightarrow> world \<Rightarrow> error option \<times> world" where
  "updateCategoryBlocksID E oldID newID w =
     (case ext_call E (CUpdate ''category_blocks'' ''id'' oldID newID) w of
        (Some err, w1) \<Rightarrow>
          (Some err, logError ''updateCategoryBlocksID update category error'' err [] w1)
      | (None, w1) \<Rightarrow>
          (None, put ((current w1)\<lparr>category_blocks :=
                         map (\<lambda>r. if cb_id r = oldID then r\<lparr>cb_id := newID\<rparr> else r)
                           (category_blocks (current w1))\<rparr>) w1))"

text \<open>Lines 243 to 247: one call of \<open>updateCategoryBlocksID\<close> per key of the map.\<close>

fun updateCategoryBlocksIDsLoop :: "env \<Rightarrow> (string \<times> string) list \<Rightarrow> string list \<Rightarrow> world \<Rightarrow> error option \<times> world" where
  "updateCategoryBlocksIDsLoop E categoryIDs [] w = (None, w)"
| "updateCategoryBlocksIDsLoop E categoryIDs (oldID # ks) w =
     (case updateCategoryBlocksID E oldID (lookup_default categoryIDs oldID []) w of
        (Some err, w') \<Rightarrow> (Some err, w')
      | (None, w') \<Rightarrow> updateCategoryBlocksIDsLoop E categoryIDs ks w')"

definition updateCategoryBlocksIDs :: "env \<Rightarrow> world \<Rightarrow> error option \<times> world" where
  "updateCategoryBlocksIDs E w =
     (case getIDs E ''category_blocks'' w of
        (Inl err, w1) \<Rightarrow> (Some err, w1)
      | (Inr oldCategoryIDs, w1) \<Rightarrow>
          (case newIDMap E oldCategoryIDs [] w1 of
             (categoryIDs, w2) \<Rightarrow>
               updateCategoryBlocksIDsLoop E categoryIDs (range_order E w2 categoryIDs) w2))"

text \<open>Lines 119 to 131: mark the migration as completed and commit.\<close>

definition categoryFinish :: "env \<Rightarrow> world \<Rightarrow> error option \<times> world" where
  "categoryFinish E w =
     (case setSystemSetting E CategoryUUIDIDMigrationKey (FormatBool True) w of
        (Some err, w1) \<Rightarrow>
          (Some (Wrap ''cannot mark migration as completed'' err),
           rollbackLogged E ''category IDs transaction rollback error'' ''setSystemSetting'' w1)
      | (None, w1) \<Rightarrow>
          (case Commit E w1 of
             (Some err, w2) \<Rightarrow> (Some (Wrap ''cannot commit category IDs transaction'' err), w2)
           | (None, w2) \<Rightarrow> (None, logDebug ''category IDs migration finished successfully'' w2)))"

text \<open>Lines 104 to 131: what runs once the completion flag has been read as not set.\<close>

definition categoryTx :: "env \<Rightarrow> world \<Rightarrow> error option \<times> world" where
  "categoryTx E w =
     (case BeginTx E (logDebug ''Running category UUID ID migration'' w) of
        (Some txErr, w1) \<Rightarrow> (Some txErr, w1)
      | (None, w1) \<Rightarrow>
          (case updateCategoryIDs E w1 of
             (Some err, w2) \<Rightarrow> (Some err, w2)
           | (None, w2) \<Rightarrow>
               (case updateCategoryBlocksIDs E w2 of
                  (Some err, w3) \<Rightarrow> (Some err, w3)
                | (None, w3) \<Rightarrow> categoryFinish E w3)))"

definition runCategoryUuidIdMigration :: "env \<Rightarrow> world \<Rightarrow> error option \<times> world" where
  "runCategoryUuidIdMigration E w =
     (case ensureMigrationsAppliedUpToVersion E categoriesUUIDIDMigrationRequiredVersion w of
        (Some err, w1) \<Rightarrow> (Some err, w1)
      | (None, w1) \<Rightarrow>
          (case GetSystemSetting E CategoryUUIDIDMigrationKey w1 of
             (Inl err, w2) \<Rightarrow> (Some (Wrap ''cannot get migration state'' err), w2)
           | (Inr setting, w2) \<Rightarrow>
               if fst (ParseBool setting) then (None, w2) else categoryTx E w2))"

section \<open>Vocabulary of the properties and scenarios\<close>

subsection \<open>What a run may change\<close>

text \<open>
  Whatever a function does, it leaves the schema version alone and only appends to the
  trace.
\<close>

definition frame :: "world \<Rightarrow> world \<Rightarrow> bool" where
  "frame w w' \<longleftrightarrow> schema_version w' = schema_version w \<and> (\<exists>xs. trace w' = trace w @ xs)"

subsection \<open>The completion flag\<close>

text \<open>
  The stored completion flag of a migration parses as true.
\<close>

definition flag_true :: "world \<Rightarrow> string \<Rightarrow> bool" where
  "flag_true w key \<longleftrightarrow>
     (case map_of (system_settings (db w)) key of None \<Rightarrow> False | Some v \<Rightarrow> fst (ParseBool v))"

text \<open>
  The world after the schema gate and the read of the completion flag, and nothing else.
\<close>

definition checked :: "world \<Rightarrow> nat \<Rightarrow> string \<Rightarrow> world" where
  "checked w ver key = w\<lparr>trace := trace w @ [CEnsureMigrations ver, CGetSystemSetting key]\<rparr>"

text \<open>
  The gate call and the flag read that follows it do not fail, and the schema is recent
  enough.
\<close>

definition gate_passes :: "env \<Rightarrow> world \<Rightarrow> nat \<Rightarrow> bool" where
  "gate_passes E w ver \<longleftrightarrow>
     fault E (length (trace w)) = None \<and> ver \<le> schema_version w \<and>
     fault E (Suc (length (trace w))) = None"

subsection \<open>Failing calls\<close>

text \<open>
  No call made between two worlds failed.
\<close>

definition clean :: "env \<Rightarrow> world \<Rightarrow> world \<Rightarrow> bool" where
  "clean E w w' \<longleftrightarrow> (\<forall>i. length (trace w) \<le> i \<and> i < length (trace w') \<longrightarrow> fault E i = None)"

text \<open>
  The call at position \<open>i\<close> of the trace is the first one made after \<open>w\<close> that failed, with
  error \<open>e0\<close>.
\<close>

definition first_failure :: "env \<Rightarrow> world \<Rightarrow> world \<Rightarrow> nat \<Rightarrow> error \<Rightarrow> bool" where
  "first_failure E w w' i e0 \<longleftrightarrow>
     length (trace w) \<le> i \<and> i < length (trace w') \<and>
     (\<forall>j. length (trace w) \<le> j \<and> j < i \<longrightarrow> fault E j = None) \<and> fault E i = Some e0"

text \<open>
  The result \<open>r\<close> of a function is faithful to the calls it made: success means no call
  failed, an error \<open>e\<close> is in relation \<open>P\<close> with the first call that failed and its error.
\<close>

definition outcome :: "env \<Rightarrow> (call \<Rightarrow> error \<Rightarrow> error \<Rightarrow> bool) \<Rightarrow> world \<Rightarrow> error option \<Rightarrow> world \<Rightarrow> bool" where
  "outcome E P w r w' \<longleftrightarrow>
     frame w w' \<and> (r = None \<longrightarrow> clean E w w') \<and>
     (\<forall>e. r = Some e \<longrightarrow> (\<exists>i e0. first_failure E w w' i e0 \<and> P (trace w' ! i) e0 e))"

subsection \<open>Which error a failing call gives\<close>







subsection \<open>Scenarios\<close>

text \<open>
  An environment in which no call fails; the \<open>n\<close>-th identifier of kind \<open>k\<close> is \<open>k\<close>, then
  \<open>id\<close>, then \<open>n\<close> plus signs.
\<close>

definition env_ok :: env where
  "env_ok = \<lparr>fault = (\<lambda>n. None),
              id_source = (\<lambda>n k. k @ ''id'' @ replicate n (CHR ''+'')),
              BlockType2IDType = (\<lambda>t. ''c''), IDTypeNone = ''7'',
              uniqueIDsMigrationRequiredVersion = 14, rank = (\<lambda>n k. 0)\<rparr>"

text \<open>
  The same environment, with call number \<open>i\<close> (from 0) failing.
\<close>

definition env_failing :: "nat \<Rightarrow> string \<Rightarrow> env" where
  "env_failing i msg = env_ok\<lparr>fault := (\<lambda>n. if n = i then Some (Err msg) else None)\<rparr>"

text \<open>
  A fresh process on a database with the given tables, at schema version 16.
\<close>

definition world_of :: "tables \<Rightarrow> world" where
  "world_of t = \<lparr>db = t, tx = None, schema_version = 16, trace = [], logs = [], generated = 0\<rparr>"

definition card_block :: "string \<Rightarrow> block" where
  "card_block i = \<lparr>ID = i, Type = ''card'', WorkspaceID = ''0''\<rparr>"

text \<open>
  Scenario A of the specification: two rows share the identifier \<open>a\<close>.
\<close>

definition scenario_A :: tables where
  "scenario_A = \<lparr>blocks = [card_block ''a'', card_block ''a'', card_block ''b''], categories = [],
                  category_blocks = [], system_settings = []\<rparr>"


text \<open>
  Scenario B of the specification: one category and one row that refers to it.
\<close>

definition scenario_B :: tables where
  "scenario_B = \<lparr>blocks = [], categories = [\<lparr>cat_id = ''c1'', cat_name = ''todo''\<rparr>],
                  category_blocks = [\<lparr>cb_id = ''d1'', cb_category_id = ''c1'', cb_block_id = ''b1''\<rparr>],
                  system_settings = []\<rparr>"

text \<open>
  Scenario C of the specification: the flags are already set.
\<close>

definition scenario_done :: tables where
  "scenario_done = scenario_B\<lparr>system_settings :=
      [(''UniqueIDsMigrationComplete'', ''true''), (''CategoryUuidIdMigrationComplete'', ''1'')]\<rparr>"

text \<open>
  A stored flag that is no boolean.
\<close>

definition scenario_malformed :: tables where
  "scenario_malformed = scenario_B\<lparr>system_settings :=
      [(''CategoryUuidIdMigrationComplete'', ''yes'')]\<rparr>"

subsection \<open>Renaming identifiers\<close>


text \<open>
  A table with one column rewritten by a function of its old value.
\<close>

definition rename_categories :: "(string \<Rightarrow> string) \<Rightarrow> category list \<Rightarrow> category list" where
  "rename_categories f cs = map (\<lambda>c. c\<lparr>cat_id := f (cat_id c)\<rparr>) cs"

definition rename_category_refs :: "(string \<Rightarrow> string) \<Rightarrow> category_block list \<Rightarrow> category_block list" where
  "rename_category_refs f rs = map (\<lambda>r. r\<lparr>cb_category_id := f (cb_category_id r)\<rparr>) rs"

definition rename_category_block_ids :: "(string \<Rightarrow> string) \<Rightarrow> category_block list \<Rightarrow> category_block list" where
  "rename_category_block_ids f rs = map (\<lambda>r. r\<lparr>cb_id := f (cb_id r)\<rparr>) rs"





subsection \<open>The category migration\<close>






section \<open>Basic facts\<close>

lemma ext_call_Some: "ext_call E c w = (Some e, w') \<longleftrightarrow> fault E (length (trace w)) = Some e \<and> w' = w\<lparr>trace := trace w @ [c]\<rparr>"
  by (auto simp: ext_call_def)

lemma ext_call_None: "ext_call E c w = (None, w') \<longleftrightarrow> fault E (length (trace w)) = None \<and> w' = w\<lparr>trace := trace w @ [c]\<rparr>"
  by (auto simp: ext_call_def)

lemma current_simps [simp]:
  "current (w\<lparr>trace := tr\<rparr>) = current w"
  "current (w\<lparr>logs := l\<rparr>) = current w"
  "current (w\<lparr>generated := g\<rparr>) = current w"
  "current (put t w) = t"
  by (simp_all add: current_def put_def split: option.splits)

lemma put_simps [simp]:
  "trace (put t w) = trace w"
  "logs (put t w) = logs w"
  "generated (put t w) = generated w"
  "schema_version (put t w) = schema_version w"
  "(tx (put t w) = None) = (tx w = None)"
  by (simp_all add: put_def split: option.splits)

lemma log_simps [simp]:
  "trace (logDebug m w) = trace w"
  "trace (logError m e k w) = trace w"
  "db (logDebug m w) = db w"
  "db (logError m e k w) = db w"
  "tx (logDebug m w) = tx w"
  "tx (logError m e k w) = tx w"
  "generated (logDebug m w) = generated w"
  "generated (logError m e k w) = generated w"
  "schema_version (logDebug m w) = schema_version w"
  "schema_version (logError m e k w) = schema_version w"
  "current (logDebug m w) = current w"
  "current (logError m e k w) = current w"
  by (simp_all add: logDebug_def logError_def)

section \<open>Every run only extends the trace\<close>

lemma frame_refl [simp]: "frame w w"
  by (simp add: frame_def)

lemma frame_trans: "frame w w1 \<Longrightarrow> frame w1 w2 \<Longrightarrow> frame w w2"
  by (auto simp: frame_def)

lemma frame_log [simp]:
  "frame w (logDebug m w1) = frame w w1"
  "frame w (logError m e k w1) = frame w w1"
  "frame (logDebug m w) w1 = frame w w1"
  by (simp_all add: frame_def)

lemma frame_put [simp]: "frame w (put t w1) = frame w w1"
  by (simp add: frame_def)

lemma frame_ext_call: "ext_call E c w = (r, w') \<Longrightarrow> frame w w'"
  by (auto simp: ext_call_def frame_def)

lemma frame_BeginTx: "BeginTx E w = (r, w') \<Longrightarrow> frame w w'"
  by (auto simp: BeginTx_def ext_call_def frame_def split: option.splits)

lemma frame_Rollback: "Rollback E w = (r, w') \<Longrightarrow> frame w w'"
  by (auto simp: Rollback_def ext_call_def frame_def split: option.splits)

lemma frame_rollbackLogged: "frame w (rollbackLogged E m n w)"
  by (auto simp: rollbackLogged_def dest: frame_Rollback split: prod.splits option.splits)

lemma frame_Commit: "Commit E w = (r, w') \<Longrightarrow> frame w w'"
  by (auto simp: Commit_def ext_call_def frame_def split: option.splits)

lemma frame_gate: "ensureMigrationsAppliedUpToVersion E v w = (r, w') \<Longrightarrow> frame w w'"
  by (auto simp: ensureMigrationsAppliedUpToVersion_def ext_call_def frame_def split: option.splits if_splits)

lemma frame_GetSystemSetting: "GetSystemSetting E k w = (r, w') \<Longrightarrow> frame w w'"
  by (auto simp: GetSystemSetting_def ext_call_def frame_def split: option.splits)

lemma frame_setSystemSetting: "setSystemSetting E k v w = (r, w') \<Longrightarrow> frame w w'"
  by (auto simp: setSystemSetting_def ext_call_def frame_def split: option.splits)

lemma frame_getBlocksWithSameID: "getBlocksWithSameID E w = (r, w') \<Longrightarrow> frame w w'"
  by (auto simp: getBlocksWithSameID_def ext_call_def frame_def split: option.splits)

lemma frame_replaceBlockID: "replaceBlockID E a b c w = (r, w') \<Longrightarrow> frame w w'"
  by (auto simp: replaceBlockID_def ext_call_def frame_def split: option.splits)

lemma frame_NewID: "NewID E k w = (r, w') \<Longrightarrow> frame w w'"
  by (auto simp: NewID_def frame_def)

lemma frame_replaceGroup: "replaceGroup E i bs w = (r, w') \<Longrightarrow> frame w w'"
proof (induction bs arbitrary: i w)
  case Nil
  then show ?case by simp
next
  case (Cons b bs)
  show ?case
  proof (cases "i = 0")
    case True
    with Cons show ?thesis by simp
  next
    case False
    obtain n w1 where n: "NewID E (BlockType2IDType E (Type b)) w = (n, w1)"
      by (cases "NewID E (BlockType2IDType E (Type b)) w")
    obtain r2 w2 where r2: "replaceBlockID E (ID b) n (WorkspaceID b) w1 = (r2, w2)"
      by (cases "replaceBlockID E (ID b) n (WorkspaceID b) w1")
    have f2: "frame w w2"
      using frame_NewID [OF n] frame_replaceBlockID [OF r2] by (rule frame_trans)
    show ?thesis
    proof (cases r2)
      case None
      with Cons.prems False n r2 have "replaceGroup E (Suc i) bs w2 = (r, w')" by simp
      from Cons.IH [OF this] f2 show ?thesis by (blast intro: frame_trans)
    next
      case (Some e)
      with Cons.prems False n r2
      have "w' = rollbackLogged E ''unique IDs transaction rollback error'' ''replaceBlockID'' w2"
        by simp
      with f2 show ?thesis by (blast intro: frame_trans frame_rollbackLogged)
    qed
  qed
qed

lemma frame_replaceGroups: "replaceGroups E m ks w = (r, w') \<Longrightarrow> frame w w'"
proof (induction ks arbitrary: w)
  case Nil
  then show ?case by simp
next
  case (Cons k ks)
  obtain r1 w1 where g: "replaceGroup E 0 (lookup_default m k []) w = (r1, w1)"
    by (cases "replaceGroup E 0 (lookup_default m k []) w")
  show ?case
  proof (cases r1)
    case None
    with Cons.prems g have "replaceGroups E m ks w1 = (r, w')" by simp
    from Cons.IH [OF this] frame_replaceGroup [OF g] show ?thesis by (blast intro: frame_trans)
  next
    case (Some e)
    with Cons.prems g frame_replaceGroup [OF g] show ?thesis by simp
  qed
qed

lemma frame_uniqueIDsFinish: "uniqueIDsFinish E w = (r, w') \<Longrightarrow> frame w w'"
  by (auto simp: uniqueIDsFinish_def split: prod.splits option.splits
      dest!: frame_setSystemSetting frame_Commit; meson frame_trans frame_rollbackLogged)

lemma frame_uniqueIDsTx: "uniqueIDsTx E w = (r, w') \<Longrightarrow> frame w w'"
  unfolding uniqueIDsTx_def
  by (auto split: prod.splits option.splits sum.splits
      dest!: frame_BeginTx frame_getBlocksWithSameID frame_replaceGroups frame_uniqueIDsFinish;
      meson frame_trans frame_rollbackLogged)

lemma frame_runUniqueIDsMigration: "runUniqueIDsMigration E w = (r, w') \<Longrightarrow> frame w w'"
  unfolding runUniqueIDsMigration_def
  by (auto split: prod.splits option.splits sum.splits if_splits
      dest!: frame_gate frame_GetSystemSetting frame_uniqueIDsTx;
      meson frame_trans)

lemma frame_scanIDs: "scanIDs E t rows acc w = (r, w') \<Longrightarrow> frame w w'"
proof (induction rows arbitrary: acc w)
  case Nil
  then show ?case by simp
next
  case (Cons x rows)
  obtain r1 w1 where c: "ext_call E CScan w = (r1, w1)"
    by (cases "ext_call E CScan w")
  show ?case
  proof (cases r1)
    case None
    with Cons.prems c have "scanIDs E t rows (acc @ [x]) w1 = (r, w')" by simp
    from Cons.IH [OF this] frame_ext_call [OF c] show ?thesis by (blast intro: frame_trans)
  next
    case (Some e)
    with Cons.prems c frame_ext_call [OF c] show ?thesis by auto
  qed
qed

lemma frame_getIDs: "getIDs E t w = (r, w') \<Longrightarrow> frame w w'"
  unfolding getIDs_def
  by (auto split: prod.splits option.splits dest!: frame_ext_call frame_scanIDs;
      meson frame_trans)

lemma frame_newIDMap: "newIDMap E olds m w = (m', w') \<Longrightarrow> frame w w'"
proof (induction olds arbitrary: m w)
  case Nil
  then show ?case by simp
next
  case (Cons x olds)
  obtain n w1 where n: "NewID E (IDTypeNone E) w = (n, w1)"
    by (cases "NewID E (IDTypeNone E) w")
  with Cons.prems have "newIDMap E olds (AList.update x n m) w1 = (m', w')" by simp
  from Cons.IH [OF this] frame_NewID [OF n] show ?case by (blast intro: frame_trans)
qed

lemma frame_updateCategoryID: "updateCategoryID E old new w = (r, w') \<Longrightarrow> frame w w'"
  unfolding updateCategoryID_def
  by (auto simp: ext_call_def frame_def split: prod.splits option.splits)

lemma frame_updateCategoryBlocksID: "updateCategoryBlocksID E old new w = (r, w') \<Longrightarrow> frame w w'"
  unfolding updateCategoryBlocksID_def
  by (auto simp: ext_call_def frame_def split: prod.splits option.splits)

lemma frame_updateCategoryIDsLoop: "updateCategoryIDsLoop E m ks w = (r, w') \<Longrightarrow> frame w w'"
proof (induction ks arbitrary: w)
  case Nil
  then show ?case by simp
next
  case (Cons k ks)
  obtain r1 w1 where u: "updateCategoryID E k (lookup_default m k []) w = (r1, w1)"
    by (cases "updateCategoryID E k (lookup_default m k []) w")
  show ?case
  proof (cases r1)
    case None
    with Cons.prems u have "updateCategoryIDsLoop E m ks w1 = (r, w')" by simp
    from Cons.IH [OF this] frame_updateCategoryID [OF u] show ?thesis by (blast intro: frame_trans)
  next
    case (Some e)
    with Cons.prems u frame_updateCategoryID [OF u] show ?thesis by simp
  qed
qed

lemma frame_updateCategoryBlocksIDsLoop:
  "updateCategoryBlocksIDsLoop E m ks w = (r, w') \<Longrightarrow> frame w w'"
proof (induction ks arbitrary: w)
  case Nil
  then show ?case by simp
next
  case (Cons k ks)
  obtain r1 w1 where u: "updateCategoryBlocksID E k (lookup_default m k []) w = (r1, w1)"
    by (cases "updateCategoryBlocksID E k (lookup_default m k []) w")
  show ?case
  proof (cases r1)
    case None
    with Cons.prems u have "updateCategoryBlocksIDsLoop E m ks w1 = (r, w')" by simp
    from Cons.IH [OF this] frame_updateCategoryBlocksID [OF u] show ?thesis
      by (blast intro: frame_trans)
  next
    case (Some e)
    with Cons.prems u frame_updateCategoryBlocksID [OF u] show ?thesis by simp
  qed
qed

lemma frame_updateCategoryIDs: "updateCategoryIDs E w = (r, w') \<Longrightarrow> frame w w'"
  unfolding updateCategoryIDs_def
  by (auto split: prod.splits sum.splits
      dest!: frame_getIDs frame_newIDMap frame_updateCategoryIDsLoop; meson frame_trans)

lemma frame_updateCategoryBlocksIDs: "updateCategoryBlocksIDs E w = (r, w') \<Longrightarrow> frame w w'"
  unfolding updateCategoryBlocksIDs_def
  by (auto split: prod.splits sum.splits
      dest!: frame_getIDs frame_newIDMap frame_updateCategoryBlocksIDsLoop; meson frame_trans)

lemma frame_categoryFinish: "categoryFinish E w = (r, w') \<Longrightarrow> frame w w'"
  by (auto simp: categoryFinish_def split: prod.splits option.splits
      dest!: frame_setSystemSetting frame_Commit; meson frame_trans frame_rollbackLogged)

lemma frame_categoryTx: "categoryTx E w = (r, w') \<Longrightarrow> frame w w'"
  unfolding categoryTx_def
  by (auto split: prod.splits option.splits
      dest!: frame_BeginTx frame_updateCategoryIDs frame_updateCategoryBlocksIDs
        frame_categoryFinish; meson frame_trans)

lemma frame_runCategoryUuidIdMigration: "runCategoryUuidIdMigration E w = (r, w') \<Longrightarrow> frame w w'"
  unfolding runCategoryUuidIdMigration_def
  by (auto split: prod.splits option.splits sum.splits if_splits
      dest!: frame_gate frame_GetSystemSetting frame_categoryTx; meson frame_trans)

section \<open>The completion flag\<close>

lemma ParseBool_Nil [simp]: "fst (ParseBool []) = False"
  by (simp add: ParseBool_def)

lemma ParseBool_true [simp]: "fst (ParseBool (FormatBool True)) = True"
  by (simp add: ParseBool_def FormatBool_def)

lemma malformed_not_true: "snd (ParseBool v) \<noteq> None \<Longrightarrow> \<not> fst (ParseBool v)"
  by (auto simp: ParseBool_def split: if_splits)

lemma gate_and_flag:
  assumes "gate_passes E w ver"
  shows "ensureMigrationsAppliedUpToVersion E ver w = (None, w\<lparr>trace := trace w @ [CEnsureMigrations ver]\<rparr>)"
    and "GetSystemSetting E key (w\<lparr>trace := trace w @ [CEnsureMigrations ver]\<rparr>) =
           (Inr (case map_of (system_settings (db w)) key of None \<Rightarrow> [] | Some v \<Rightarrow> v), checked w ver key)"
  using assms
  by (simp_all add: gate_passes_def ensureMigrationsAppliedUpToVersion_def GetSystemSetting_def
      ext_call_def checked_def)

lemma runUniqueIDsMigration_checked:
  assumes "gate_passes E w (uniqueIDsMigrationRequiredVersion E)"
  shows "runUniqueIDsMigration E w =
           (if flag_true w UniqueIDsMigrationKey
            then (None, checked w (uniqueIDsMigrationRequiredVersion E) UniqueIDsMigrationKey)
            else uniqueIDsTx E (checked w (uniqueIDsMigrationRequiredVersion E) UniqueIDsMigrationKey))"
  unfolding runUniqueIDsMigration_def
  by (simp add: gate_and_flag [OF assms] flag_true_def split: option.splits)

lemma runCategoryUuidIdMigration_checked:
  assumes "gate_passes E w categoriesUUIDIDMigrationRequiredVersion"
  shows "runCategoryUuidIdMigration E w =
           (if flag_true w CategoryUUIDIDMigrationKey
            then (None, checked w categoriesUUIDIDMigrationRequiredVersion CategoryUUIDIDMigrationKey)
            else categoryTx E (checked w categoriesUUIDIDMigrationRequiredVersion CategoryUUIDIDMigrationKey))"
  unfolding runCategoryUuidIdMigration_def
  by (simp add: gate_and_flag [OF assms] flag_true_def split: option.splits)

lemma setSystemSetting_flag:
  "setSystemSetting E key (FormatBool True) w = (None, w1) \<Longrightarrow> Commit E w1 = (None, w2) \<Longrightarrow>
   flag_true w2 key"
  by (auto simp: setSystemSetting_def Commit_def ext_call_def flag_true_def update_conv'
      split: option.splits)

lemma uniqueIDsFinish_flag:
  "uniqueIDsFinish E w = (None, w') \<Longrightarrow> flag_true w' UniqueIDsMigrationKey"
  unfolding uniqueIDsFinish_def
  by (auto split: prod.splits option.splits dest: setSystemSetting_flag simp: flag_true_def)

lemma categoryFinish_flag:
  "categoryFinish E w = (None, w') \<Longrightarrow> flag_true w' CategoryUUIDIDMigrationKey"
  unfolding categoryFinish_def
  by (auto split: prod.splits option.splits dest: setSystemSetting_flag simp: flag_true_def)

lemma uniqueIDsTx_flag: "uniqueIDsTx E w = (None, w') \<Longrightarrow> flag_true w' UniqueIDsMigrationKey"
  unfolding uniqueIDsTx_def
  by (auto split: prod.splits option.splits sum.splits dest: uniqueIDsFinish_flag)

lemma categoryTx_flag: "categoryTx E w = (None, w') \<Longrightarrow> flag_true w' CategoryUUIDIDMigrationKey"
  unfolding categoryTx_def
  by (auto split: prod.splits option.splits sum.splits dest: categoryFinish_flag)

lemma flag_true_GetSystemSetting:
  "GetSystemSetting E key w = (Inr setting, w') \<Longrightarrow> fst (ParseBool setting) \<Longrightarrow> flag_true w' key"
  by (auto simp: GetSystemSetting_def ext_call_def flag_true_def split: option.splits)

lemma runUniqueIDsMigration_flag:
  "runUniqueIDsMigration E w = (None, w') \<Longrightarrow> flag_true w' UniqueIDsMigrationKey"
  unfolding runUniqueIDsMigration_def
  by (auto split: prod.splits option.splits sum.splits if_splits
      dest: uniqueIDsTx_flag flag_true_GetSystemSetting)

lemma runCategoryUuidIdMigration_flag:
  "runCategoryUuidIdMigration E w = (None, w') \<Longrightarrow> flag_true w' CategoryUUIDIDMigrationKey"
  unfolding runCategoryUuidIdMigration_def
  by (auto split: prod.splits option.splits sum.splits if_splits
      dest: categoryTx_flag flag_true_GetSystemSetting)

lemma gate_passed_before:
  "ensureMigrationsAppliedUpToVersion E ver w = (None, w1) \<Longrightarrow> ver \<le> schema_version w"
  by (auto simp: ensureMigrationsAppliedUpToVersion_def ext_call_def split: option.splits if_splits)

lemma runUniqueIDsMigration_version:
  "runUniqueIDsMigration E w = (None, w') \<Longrightarrow> uniqueIDsMigrationRequiredVersion E \<le> schema_version w'"
proof -
  assume r: "runUniqueIDsMigration E w = (None, w')"
  then have "uniqueIDsMigrationRequiredVersion E \<le> schema_version w"
    unfolding runUniqueIDsMigration_def
    by (auto split: prod.splits option.splits dest: gate_passed_before)
  with frame_runUniqueIDsMigration [OF r] show ?thesis by (simp add: frame_def)
qed

lemma runCategoryUuidIdMigration_version:
  "runCategoryUuidIdMigration E w = (None, w') \<Longrightarrow>
   categoriesUUIDIDMigrationRequiredVersion \<le> schema_version w'"
proof -
  assume r: "runCategoryUuidIdMigration E w = (None, w')"
  then have "categoriesUUIDIDMigrationRequiredVersion \<le> schema_version w"
    unfolding runCategoryUuidIdMigration_def
    by (auto split: prod.splits option.splits dest: gate_passed_before)
  with frame_runCategoryUuidIdMigration [OF r] show ?thesis by (simp add: frame_def)
qed

text \<open>
  Claim C2 (idempotence). For either migration: when the schema gate passes and the
  completion flag reads true, the run returns success and the store is unchanged except
  for the trace, which gains the gate check and the flag read only (no transaction, no
  query, no write); and a second run after a successful run is such a run.
\<close>

theorem completed_migration_is_noop:
  assumes "(run, key, ver) \<in>
      {(runUniqueIDsMigration, UniqueIDsMigrationKey, uniqueIDsMigrationRequiredVersion E),
       (runCategoryUuidIdMigration, CategoryUUIDIDMigrationKey,
        categoriesUUIDIDMigrationRequiredVersion)}"
  shows "(gate_passes E w ver \<and> flag_true w key \<longrightarrow> run E w = (None, checked w ver key))
       \<and> (\<forall>w1. run E w = (None, w1) \<and> fault E (length (trace w1)) = None \<and>
                fault E (Suc (length (trace w1))) = None \<longrightarrow>
                run E w1 = (None, checked w1 ver key))"
proof -
  from assms consider
      (u) "run = runUniqueIDsMigration" "key = UniqueIDsMigrationKey"
          "ver = uniqueIDsMigrationRequiredVersion E"
    | (c) "run = runCategoryUuidIdMigration" "key = CategoryUUIDIDMigrationKey"
          "ver = categoriesUUIDIDMigrationRequiredVersion"
    by auto
  then show ?thesis
  proof cases
    case u
    have once: "run E w' = (None, checked w' ver key)"
      if "gate_passes E w' ver" "flag_true w' key" for w'
      using that u by (simp add: runUniqueIDsMigration_checked)
    have "run E w1 = (None, checked w1 ver key)"
      if "run E w = (None, w1)" "fault E (length (trace w1)) = None"
         "fault E (Suc (length (trace w1))) = None" for w1
    proof (rule once)
      from that u show "gate_passes E w1 ver"
        by (simp add: gate_passes_def runUniqueIDsMigration_version)
      from that u show "flag_true w1 key"
        by (simp add: runUniqueIDsMigration_flag)
    qed
    with once show ?thesis by blast
  next
    case c
    have once: "run E w' = (None, checked w' ver key)"
      if "gate_passes E w' ver" "flag_true w' key" for w'
      using that c by (simp add: runCategoryUuidIdMigration_checked)
    have "run E w1 = (None, checked w1 ver key)"
      if "run E w = (None, w1)" "fault E (length (trace w1)) = None"
         "fault E (Suc (length (trace w1))) = None" for w1
    proof (rule once)
      from that c show "gate_passes E w1 ver"
        by (simp add: gate_passes_def runCategoryUuidIdMigration_version)
      from that c show "flag_true w1 key"
        by (simp add: runCategoryUuidIdMigration_flag)
    qed
    with once show ?thesis by blast
  qed
qed

lemma BeginTx_trace: "BeginTx E w = (r, w') \<Longrightarrow> trace w' = trace w @ [CBeginTx]"
  by (auto simp: BeginTx_def ext_call_def split: option.splits)

lemma frame_after_first:
  "trace w1 = trace w @ [c] \<Longrightarrow> frame w1 w' \<Longrightarrow> \<exists>rest. trace w' = trace w @ c # rest"
  by (auto simp: frame_def)

lemma uniqueIDsTx_begins: "uniqueIDsTx E w = (r, w') \<Longrightarrow> \<exists>rest. trace w' = trace w @ CBeginTx # rest"
proof -
  assume a: "uniqueIDsTx E w = (r, w')"
  obtain r1 w1 where b: "BeginTx E (logDebug ''Running Unique IDs migration'' w) = (r1, w1)"
    by (cases "BeginTx E (logDebug ''Running Unique IDs migration'' w)")
  then have t: "trace w1 = trace w @ [CBeginTx]" by (simp add: BeginTx_trace)
  have "frame w1 w'"
  proof (cases r1)
    case (Some e)
    with a b show ?thesis by (simp add: uniqueIDsTx_def)
  next
    case None
    with a b show ?thesis
      unfolding uniqueIDsTx_def
      by (auto split: prod.splits option.splits sum.splits
          dest!: frame_getBlocksWithSameID frame_replaceGroups frame_uniqueIDsFinish;
          meson frame_trans frame_rollbackLogged)
  qed
  with t show ?thesis by (rule frame_after_first)
qed

lemma categoryTx_begins: "categoryTx E w = (r, w') \<Longrightarrow> \<exists>rest. trace w' = trace w @ CBeginTx # rest"
proof -
  assume a: "categoryTx E w = (r, w')"
  obtain r1 w1 where b: "BeginTx E (logDebug ''Running category UUID ID migration'' w) = (r1, w1)"
    by (cases "BeginTx E (logDebug ''Running category UUID ID migration'' w)")
  then have t: "trace w1 = trace w @ [CBeginTx]" by (simp add: BeginTx_trace)
  have "frame w1 w'"
  proof (cases r1)
    case (Some e)
    with a b show ?thesis by (simp add: categoryTx_def)
  next
    case None
    with a b show ?thesis
      unfolding categoryTx_def
      by (auto split: prod.splits option.splits
          dest!: frame_updateCategoryIDs frame_updateCategoryBlocksIDs frame_categoryFinish;
          meson frame_trans)
  qed
  with t show ?thesis by (rule frame_after_first)
qed

lemma not_flag_true:
  "map_of (system_settings (db w)) key = None \<or>
   (\<exists>v. map_of (system_settings (db w)) key = Some v \<and> snd (ParseBool v) \<noteq> None) \<Longrightarrow>
   \<not> flag_true w key"
  using malformed_not_true by (fastforce simp: flag_true_def)

text \<open>
  Claim C8 (absent or malformed flag). For either migration, once the schema gate has
  passed and the flag was read without a store error: if the key is absent or its value
  does not parse as a boolean, the run is the transactional part of the migration, whose
  first call opens the transaction; and the run stops after the flag read exactly when
  the stored value parses as true.
\<close>

theorem unreadable_flag_means_not_completed:
  assumes mig: "(run, txpart, key, ver) \<in>
      {(runUniqueIDsMigration, uniqueIDsTx, UniqueIDsMigrationKey,
        uniqueIDsMigrationRequiredVersion E),
       (runCategoryUuidIdMigration, categoryTx, CategoryUUIDIDMigrationKey,
        categoriesUUIDIDMigrationRequiredVersion)}"
    and gate: "gate_passes E w ver"
  shows "(map_of (system_settings (db w)) key = None \<or>
          (\<exists>v. map_of (system_settings (db w)) key = Some v \<and> snd (ParseBool v) \<noteq> None) \<longrightarrow>
            run E w = txpart E (checked w ver key) \<and>
            (\<exists>rest. trace (snd (run E w)) = trace (checked w ver key) @ CBeginTx # rest))
       \<and> (run E w = (None, checked w ver key) \<longleftrightarrow> flag_true w key)"
proof -
  have eq: "run E w = (if flag_true w key then (None, checked w ver key)
                       else txpart E (checked w ver key))"
    using mig gate
    by (auto simp: runUniqueIDsMigration_checked runCategoryUuidIdMigration_checked)
  have begins: "\<exists>rest. trace (snd (txpart E w0)) = trace w0 @ CBeginTx # rest" for w0
    using mig uniqueIDsTx_begins [of E w0] categoryTx_begins [of E w0]
    by (cases "txpart E w0") auto
  have "txpart E (checked w ver key) \<noteq> (None, checked w ver key)"
    using begins [of "checked w ver key"] by auto
  with eq have iff: "run E w = (None, checked w ver key) \<longleftrightarrow> flag_true w key"
    by simp
  from eq begins [of "checked w ver key"] not_flag_true [of w key] iff
  show ?thesis by auto
qed

section \<open>The first failing call decides the result\<close>





lemma outcome_frame: "outcome E P w r w' \<Longrightarrow> frame w w'"
  by (simp add: outcome_def)

lemma outcome_clean: "outcome E P w None w' \<Longrightarrow> clean E w w'"
  by (simp add: outcome_def)








lemma outcome_log [simp]:
  "outcome E P w r (logDebug m w1) = outcome E P w r w1"
  "outcome E P w r (logError m e k w1) = outcome E P w r w1"
  "outcome E P (logDebug m w) r w1 = outcome E P w r w1"
  by (simp_all add: outcome_def clean_def first_failure_def logDebug_def logError_def frame_def)

lemma outcome_put [simp]:
  "outcome E P w r (put t w1) = outcome E P w r w1"
  "outcome E P (put t w) r w1 = outcome E P w r w1"
  by (simp_all add: outcome_def clean_def first_failure_def frame_def)

lemma outcome_refl [simp]: "outcome E P w None w"
  by (auto simp: outcome_def clean_def)

lemma outcome_upd [simp]:
  "outcome E P w r (w1\<lparr>tx := x\<rparr>) = outcome E P w r w1"
  "outcome E P w r (w1\<lparr>db := y\<rparr>) = outcome E P w r w1"
  "outcome E P w r (w1\<lparr>generated := g\<rparr>) = outcome E P w r w1"
  "outcome E P (w\<lparr>generated := g\<rparr>) r w1 = outcome E P w r w1"
  by (simp_all add: outcome_def clean_def first_failure_def frame_def)






















lemma frame_logError [simp]: "frame w (logError m e k w)"
  by (simp add: frame_def logError_def)









section \<open>The migrations on the scenarios\<close>

text \<open>
  Claim C1 (rollback on every failed step). The category migration does not satisfy it:
  with one category \<open>c1\<close> and one membership row that refers to it, let the update of
  \<open>category_blocks.category_id\<close> fail (the eighth call). The migration returns the error
  as it is, the trace ends with the failed update and holds no rollback, and the
  transaction stays open with the category already renamed.
\<close>

theorem category_failure_leaves_transaction_open:
  "fst (runCategoryUuidIdMigration (env_failing 7 ''write failed'') (world_of scenario_B)) =
     Some (Err ''write failed'')
   \<and> trace (snd (runCategoryUuidIdMigration (env_failing 7 ''write failed'') (world_of scenario_B))) =
     [CEnsureMigrations 16, CGetSystemSetting ''CategoryUuidIdMigrationComplete'', CBeginTx,
      CSelectIDs ''categories'', CScan, CUpdate ''categories'' ''id'' ''c1'' ''7id'', CRowsClose,
      CUpdate ''category_blocks'' ''category_id'' ''c1'' ''7id'']
   \<and> tx (snd (runCategoryUuidIdMigration (env_failing 7 ''write failed'') (world_of scenario_B))) =
     Some (scenario_B\<lparr>categories := [\<lparr>cat_id = ''7id'', cat_name = ''todo''\<rparr>]\<rparr>)"
  by code_simp

text \<open>
  Claim C10 (the commit is the only failure point without a rollback call). In the category
  migration the listing of \<open>category_blocks\<close> fails (the tenth call): the error returned is
  that of the listing, not of a commit, no rollback call is made and the transaction stays
  open.
\<close>

theorem category_listing_failure_without_rollback:
  "fst (runCategoryUuidIdMigration (env_failing 9 ''read failed'') (world_of scenario_B)) =
     Some (Err ''read failed'')
   \<and> last (trace (snd (runCategoryUuidIdMigration (env_failing 9 ''read failed'')
        (world_of scenario_B)))) = CSelectIDs ''category_blocks''
   \<and> CRollback \<notin> set (trace (snd (runCategoryUuidIdMigration (env_failing 9 ''read failed'')
        (world_of scenario_B))))
   \<and> tx (snd (runCategoryUuidIdMigration (env_failing 9 ''read failed'') (world_of scenario_B)))
       \<noteq> None"
  by code_simp




text \<open>
  The theorem applied to the category migration on a store whose flag is set, and to a
  second run of the unique-IDs migration.
\<close>

theorem completed_migration_is_noop_witness:
  "gate_passes env_ok (world_of scenario_done) categoriesUUIDIDMigrationRequiredVersion
   \<and> flag_true (world_of scenario_done) CategoryUUIDIDMigrationKey
   \<and> runCategoryUuidIdMigration env_ok (world_of scenario_done) =
       (None, checked (world_of scenario_done) categoriesUUIDIDMigrationRequiredVersion
                CategoryUUIDIDMigrationKey)
   \<and> fst (runUniqueIDsMigration env_ok (world_of scenario_A)) = None
   \<and> runUniqueIDsMigration env_ok (snd (runUniqueIDsMigration env_ok (world_of scenario_A))) =
       (None, checked (snd (runUniqueIDsMigration env_ok (world_of scenario_A)))
                (uniqueIDsMigrationRequiredVersion env_ok) UniqueIDsMigrationKey)"
proof -
  have g: "gate_passes env_ok (world_of scenario_done) categoriesUUIDIDMigrationRequiredVersion"
    by code_simp
  have f: "flag_true (world_of scenario_done) CategoryUUIDIDMigrationKey"
    by code_simp
  have r: "fst (runUniqueIDsMigration env_ok (world_of scenario_A)) = None"
    by code_simp
  then have r': "runUniqueIDsMigration env_ok (world_of scenario_A) =
      (None, snd (runUniqueIDsMigration env_ok (world_of scenario_A)))"
    by (metis prod.collapse)
  have q: "fault env_ok n = None" for n
    by (simp add: env_ok_def)
  from completed_migration_is_noop [of runCategoryUuidIdMigration CategoryUUIDIDMigrationKey
      categoriesUUIDIDMigrationRequiredVersion env_ok "world_of scenario_done"] g f
  have 1: "runCategoryUuidIdMigration env_ok (world_of scenario_done) =
       (None, checked (world_of scenario_done) categoriesUUIDIDMigrationRequiredVersion
                CategoryUUIDIDMigrationKey)"
    by simp
  from completed_migration_is_noop [of runUniqueIDsMigration UniqueIDsMigrationKey
      "uniqueIDsMigrationRequiredVersion env_ok" env_ok "world_of scenario_A"] r' q
  have 2: "runUniqueIDsMigration env_ok (snd (runUniqueIDsMigration env_ok (world_of scenario_A))) =
       (None, checked (snd (runUniqueIDsMigration env_ok (world_of scenario_A)))
                (uniqueIDsMigrationRequiredVersion env_ok) UniqueIDsMigrationKey)"
    by simp
  from g f r 1 2 show ?thesis by simp
qed

text \<open>
  The theorem applied to a malformed value (\<open>yes\<close>) for the category migration and to an
  absent key for the unique-IDs migration.
\<close>

theorem unreadable_flag_means_not_completed_witness:
  "gate_passes env_ok (world_of scenario_malformed) categoriesUUIDIDMigrationRequiredVersion
   \<and> map_of (system_settings (db (world_of scenario_malformed))) CategoryUUIDIDMigrationKey =
       Some ''yes''
   \<and> snd (ParseBool ''yes'') \<noteq> None
   \<and> runCategoryUuidIdMigration env_ok (world_of scenario_malformed) =
       categoryTx env_ok (checked (world_of scenario_malformed)
         categoriesUUIDIDMigrationRequiredVersion CategoryUUIDIDMigrationKey)
   \<and> gate_passes env_ok (world_of scenario_A) (uniqueIDsMigrationRequiredVersion env_ok)
   \<and> map_of (system_settings (db (world_of scenario_A))) UniqueIDsMigrationKey = None
   \<and> runUniqueIDsMigration env_ok (world_of scenario_A) =
       uniqueIDsTx env_ok (checked (world_of scenario_A)
         (uniqueIDsMigrationRequiredVersion env_ok) UniqueIDsMigrationKey)"
proof -
  have g: "gate_passes env_ok (world_of scenario_malformed) categoriesUUIDIDMigrationRequiredVersion"
    by code_simp
  have v: "map_of (system_settings (db (world_of scenario_malformed))) CategoryUUIDIDMigrationKey =
       Some ''yes''"
    by code_simp
  have p: "snd (ParseBool ''yes'') \<noteq> None"
    by code_simp
  have g2: "gate_passes env_ok (world_of scenario_A) (uniqueIDsMigrationRequiredVersion env_ok)"
    by code_simp
  have a: "map_of (system_settings (db (world_of scenario_A))) UniqueIDsMigrationKey = None"
    by code_simp
  from unreadable_flag_means_not_completed [of runCategoryUuidIdMigration categoryTx
      CategoryUUIDIDMigrationKey categoriesUUIDIDMigrationRequiredVersion env_ok
      "world_of scenario_malformed"] g v p
  have 1: "runCategoryUuidIdMigration env_ok (world_of scenario_malformed) =
       categoryTx env_ok (checked (world_of scenario_malformed)
         categoriesUUIDIDMigrationRequiredVersion CategoryUUIDIDMigrationKey)"
    by simp
  from unreadable_flag_means_not_completed [of runUniqueIDsMigration uniqueIDsTx
      UniqueIDsMigrationKey "uniqueIDsMigrationRequiredVersion env_ok" env_ok
      "world_of scenario_A"] g2 a
  have 2: "runUniqueIDsMigration env_ok (world_of scenario_A) =
       uniqueIDsTx env_ok (checked (world_of scenario_A)
         (uniqueIDsMigrationRequiredVersion env_ok) UniqueIDsMigrationKey)"
    by simp
  from g v p 1 g2 a 2 show ?thesis by simp
qed

section \<open>Failures are returned\<close>



section \<open>The effect of the category updates\<close>




















lemma rename_cong:
  "(\<And>x. x \<in> cat_id ` set cs \<Longrightarrow> f x = g x) \<Longrightarrow> rename_categories f cs = rename_categories g cs"
  "(\<And>x. x \<in> cb_category_id ` set rs \<Longrightarrow> f x = g x) \<Longrightarrow>
     rename_category_refs f rs = rename_category_refs g rs"
  "(\<And>x. x \<in> cb_id ` set rs \<Longrightarrow> f x = g x) \<Longrightarrow>
     rename_category_block_ids f rs = rename_category_block_ids g rs"
  by (simp_all add: rename_categories_def rename_category_refs_def rename_category_block_ids_def)












section \<open>Equal identifiers stay equal; one update per identifier\<close>

















section \<open>The category migration, as a whole\<close>





section \<open>The two mappings of the category migration\<close>






section \<open>Rows sharing an identifier\<close>






section \<open>Failures of the unique-IDs migration end with a rollback or are the commit\<close>

lemma rollbackLogged_trace: "trace (rollbackLogged E msg name w) = trace w @ [CRollback]"
  by (auto simp: rollbackLogged_def Rollback_def ext_call_def split: option.splits)

lemma replaceGroup_failure_rolls_back:
  "replaceGroup E i bs w = (Some e, w') \<Longrightarrow> last (trace w') = CRollback"
proof (induction bs arbitrary: i w)
  case Nil
  then show ?case by simp
next
  case (Cons b bs)
  show ?case
  proof (cases "i = 0")
    case True
    with Cons show ?thesis by simp
  next
    case False
    obtain n w1 where n: "NewID E (BlockType2IDType E (Type b)) w = (n, w1)"
      by (cases "NewID E (BlockType2IDType E (Type b)) w")
    obtain r2 w2 where r2: "replaceBlockID E (ID b) n (WorkspaceID b) w1 = (r2, w2)"
      by (cases "replaceBlockID E (ID b) n (WorkspaceID b) w1")
    show ?thesis
    proof (cases r2)
      case None
      with Cons.prems False n r2 have "replaceGroup E (Suc i) bs w2 = (Some e, w')" by simp
      then show ?thesis by (rule Cons.IH)
    next
      case (Some e2)
      with Cons.prems False n r2
      have "w' = rollbackLogged E ''unique IDs transaction rollback error'' ''replaceBlockID'' w2"
        by simp
      then show ?thesis by (simp add: rollbackLogged_trace)
    qed
  qed
qed

lemma replaceGroups_failure_rolls_back:
  "replaceGroups E m ks w = (Some e, w') \<Longrightarrow> last (trace w') = CRollback"
proof (induction ks arbitrary: w)
  case Nil
  then show ?case by simp
next
  case (Cons k ks)
  obtain r1 w1 where g: "replaceGroup E 0 (lookup_default m k []) w = (r1, w1)"
    by (cases "replaceGroup E 0 (lookup_default m k []) w")
  show ?case
  proof (cases r1)
    case None
    with Cons.prems g have "replaceGroups E m ks w1 = (Some e, w')" by simp
    then show ?thesis by (rule Cons.IH)
  next
    case (Some e1)
    with Cons.prems g have "replaceGroup E 0 (lookup_default m k []) w = (Some e, w')" by simp
    then show ?thesis by (rule replaceGroup_failure_rolls_back)
  qed
qed

lemma Commit_trace: "Commit E w = (r, w') \<Longrightarrow> trace w' = trace w @ [CCommit]"
  by (auto simp: Commit_def ext_call_def split: option.splits)

lemma finish_failure:
  "uniqueIDsFinish E w = (Some e, w') \<Longrightarrow>
   last (trace w') = CRollback \<or>
   last (trace w') = CCommit \<and> (\<exists>e0. e = Wrap ''cannot commit unique IDs transaction'' e0)"
  "categoryFinish E w = (Some e, w') \<Longrightarrow>
   last (trace w') = CRollback \<or>
   last (trace w') = CCommit \<and> (\<exists>e0. e = Wrap ''cannot commit category IDs transaction'' e0)"
  unfolding uniqueIDsFinish_def categoryFinish_def
  by (auto split: prod.splits option.splits simp: rollbackLogged_trace dest: Commit_trace)

lemma uniqueIDsTx_failure:
  assumes "uniqueIDsTx E w = (Some e, w')"
  shows "last (trace w') = CBeginTx \<or> last (trace w') = CRollback \<or>
         last (trace w') = CCommit \<and> (\<exists>e0. e = Wrap ''cannot commit unique IDs transaction'' e0)"
  using assms unfolding uniqueIDsTx_def
  by (auto split: prod.splits option.splits sum.splits
      simp: rollbackLogged_trace BeginTx_trace
      dest: replaceGroups_failure_rolls_back finish_failure(1))

end
